theory Spec2Isabelle
  imports Complex_Main
begin

section \<open>Values of the untyped raw record\<close>

text \<open>
  The raw extracted-field record (\<^verbatim>\<open>w2Data: any\<close>, in the extraction service an
  \<^verbatim>\<open>ExtractedFieldData\<close> whose values are \<^verbatim>\<open>string | number\<close>) is a map from property names
  to JavaScript values. Reading a property that is not there gives \<^verbatim>\<open>undefined\<close>.

  Numbers are exact rationals: the rounding of IEEE doubles, NaN and the infinities as
  stored values are not represented. Strings are lists of 8-bit characters
  (code units below 256).
\<close>

datatype jsval = Undefined | Str string | Num rat

datatype error = TypeError

type_synonym w2Data = "string \<rightharpoonup> jsval"

definition field :: "w2Data \<Rightarrow> string \<Rightarrow> jsval" where
  "field w k = (case w k of None \<Rightarrow> Undefined | Some v \<Rightarrow> v)"

text \<open>JavaScript truthiness, as tested by \<^verbatim>\<open>if (v)\<close>, \<^verbatim>\<open>!v\<close>, \<^verbatim>\<open>v && ...\<close> and \<^verbatim>\<open>v || d\<close>.\<close>

fun truthy :: "jsval \<Rightarrow> bool" where
  "truthy Undefined = False"
| "truthy (Str s) = (s \<noteq> [])"
| "truthy (Num n) = (n \<noteq> 0)"

section \<open>Character classes and string helpers\<close>

definition isDigit :: "char \<Rightarrow> bool" where
  \<comment> \<open>\<^verbatim>\<open>\d\<close>: the ASCII digits\<close>
  "isDigit c = (48 \<le> (of_char c :: nat) \<and> (of_char c :: nat) \<le> 57)"

definition isUpper :: "char \<Rightarrow> bool" where
  \<comment> \<open>\<^verbatim>\<open>[A-Z]\<close>\<close>
  "isUpper c = (65 \<le> (of_char c :: nat) \<and> (of_char c :: nat) \<le> 90)"

definition isWhiteSpace :: "char \<Rightarrow> bool" where
  \<comment> \<open>\<^verbatim>\<open>\s\<close> and the characters \<^verbatim>\<open>trim()\<close> strips, among code units below 256:
      TAB, LF, VT, FF, CR, space, NBSP\<close>
  "isWhiteSpace c = (c = CHR 0x09 \<or> c = CHR 0x0A \<or> c = CHR 0x0B \<or> c = CHR 0x0C
      \<or> c = CHR 0x0D \<or> c = CHR 0x20 \<or> c = CHR 0xA0)"

definition trim :: "string \<Rightarrow> string" where
  "trim s = rev (dropWhile isWhiteSpace (rev (dropWhile isWhiteSpace s)))"

text \<open>\<^verbatim>\<open>s.split(/\s+/)\<close>: the pieces between maximal runs of whitespace; a run at the
  start or at the end leaves an empty piece there, and the empty string gives one empty piece.\<close>

function split_ws :: "string \<Rightarrow> string list" where
  "split_ws s =
     (if dropWhile (\<lambda>c. \<not> isWhiteSpace c) s = [] then [takeWhile (\<lambda>c. \<not> isWhiteSpace c) s]
      else takeWhile (\<lambda>c. \<not> isWhiteSpace c) s
           # split_ws (dropWhile isWhiteSpace (dropWhile (\<lambda>c. \<not> isWhiteSpace c) s)))"
  by pat_completeness auto
termination
proof (relation "measure length")
  fix s :: string
  let ?r = "dropWhile (\<lambda>c. \<not> isWhiteSpace c) s"
  assume ne: "?r \<noteq> []"
  then have "isWhiteSpace (hd ?r)"
    using hd_dropWhile [of "\<lambda>c. \<not> isWhiteSpace c" s] by simp
  with ne have "length (dropWhile isWhiteSpace ?r) < length ?r"
    by (cases ?r) (auto simp: le_imp_less_Suc length_dropWhile_le)
  moreover have "length ?r \<le> length s"
    by (rule length_dropWhile_le)
  ultimately show "(dropWhile isWhiteSpace ?r, s) \<in> measure length"
    by simp
qed simp

declare split_ws.simps [simp del]

text \<open>\<^verbatim>\<open>s.split(',')\<close>: always at least one piece.\<close>

primrec split_char :: "char \<Rightarrow> string \<Rightarrow> string list" where
  "split_char d [] = [[]]"
| "split_char d (c # cs) =
     (if c = d then [] # split_char d cs
      else (case split_char d cs of [] \<Rightarrow> [[c]] | t # ts \<Rightarrow> (c # t) # ts))"

text \<open>\<^verbatim>\<open>xs.join(sep)\<close>\<close>

fun join :: "string \<Rightarrow> string list \<Rightarrow> string" where
  "join sep [] = []"
| "join sep [x] = x"
| "join sep (x # y # ys) = x @ sep @ join sep (y # ys)"

section \<open>parseAmount\<close>

definition digitsVal :: "string \<Rightarrow> nat" where
  "digitsVal ds = foldl (\<lambda>a c. 10 * a + (of_char c - 48)) 0 ds"

text \<open>The exponent part of a decimal literal: \<^verbatim>\<open>e\<close> or \<^verbatim>\<open>E\<close>, an optional sign and
  at least one digit; anything else is not part of the number.\<close>

definition exponentPart :: "string \<Rightarrow> int" where
  "exponentPart s =
     (case s of
        [] \<Rightarrow> 0
      | c # r \<Rightarrow>
          if c = CHR ''e'' \<or> c = CHR ''E'' then
            (case r of
               [] \<Rightarrow> 0
             | d # r' \<Rightarrow>
                 if d = CHR ''-'' then - int (digitsVal (takeWhile isDigit r'))
                 else if d = CHR ''+'' then int (digitsVal (takeWhile isDigit r'))
                 else int (digitsVal (takeWhile isDigit r)))
          else 0)"

text \<open>
  \<^verbatim>\<open>parseFloat\<close>: skips leading whitespace and reads the longest prefix that is a decimal
  literal (sign, integer digits, fraction, exponent); \<open>None\<close> is NaN, the result when
  there is no such prefix. The value is exact. The literal \<^verbatim>\<open>Infinity\<close>, which the
  builtin also reads, has no finite value and is read as no number here.
\<close>

definition parseFloat :: "string \<Rightarrow> rat option" where
  "parseFloat str =
     (let s = dropWhile isWhiteSpace str;
          neg = (case s of [] \<Rightarrow> False | c # _ \<Rightarrow> c = CHR ''-'');
          s1 = (case s of [] \<Rightarrow> [] | c # r \<Rightarrow> if c = CHR ''-'' \<or> c = CHR ''+'' then r else s);
          ip = takeWhile isDigit s1;
          s2 = dropWhile isDigit s1;
          hasDot = (case s2 of [] \<Rightarrow> False | c # _ \<Rightarrow> c = CHR ''.'');
          fp = (if hasDot then takeWhile isDigit (tl s2) else []);
          s3 = (if hasDot then dropWhile isDigit (tl s2) else s2);
          ex = exponentPart s3;
          m = of_nat (digitsVal ip) + of_nat (digitsVal fp) / 10 ^ length fp;
          v = (if 0 \<le> ex then m * 10 ^ nat ex else m / 10 ^ nat (- ex))
      in if ip = [] \<and> fp = [] then None
         else Some (if neg then - v else v))"

definition parseAmount :: "jsval \<Rightarrow> rat" where
  "parseAmount val =
     (case val of
        Num n \<Rightarrow> n
      | Str s \<Rightarrow>
          (let cleaned = filter (\<lambda>c. \<not> (c = CHR ''$'' \<or> c = CHR '','' \<or> isWhiteSpace c)) s
           in case parseFloat cleaned of None \<Rightarrow> 0 | Some parsed \<Rightarrow> parsed)
      | Undefined \<Rightarrow> 0)"

section \<open>formatSSN and parseAddress\<close>

text \<open>Both are declared on \<^verbatim>\<open>string\<close> but are called with whatever the raw record
  holds: a number has no \<^verbatim>\<open>replace\<close> and no \<^verbatim>\<open>split\<close> method, and the call throws a
  TypeError.\<close>

definition formatSSN :: "jsval \<Rightarrow> error + string" where
  "formatSSN ssn =
     (if \<not> truthy ssn then Inr []
      else case ssn of
        Str s \<Rightarrow>
          (let cleaned = filter isDigit s
           in if length cleaned = 9
              then Inr (take 3 cleaned @ ''-'' @ take 2 (drop 3 cleaned) @ ''-'' @ drop 5 cleaned)
              else Inr cleaned)
      | _ \<Rightarrow> Inl TypeError)"

record addressParts =
  street :: string
  city_part :: string
  state_part :: string
  zipCode_part :: string

text \<open>\<^verbatim>\<open>/^([A-Z]{2})\s*(\d{5}(-\d{4})?)$/\<close>: the two groups of a match.\<close>

definition isZip :: "string \<Rightarrow> bool" where
  "isZip z = ((length z = 5 \<and> list_all isDigit z)
     \<or> (length z = 10 \<and> list_all isDigit (take 5 z) \<and> z ! 5 = CHR ''-''
         \<and> list_all isDigit (drop 6 z)))"

definition stateZipMatch :: "string \<Rightarrow> (string \<times> string) option" where
  "stateZipMatch stateZip =
     (case stateZip of
        a # b # rest \<Rightarrow>
          (let z = dropWhile isWhiteSpace rest
           in if isUpper a \<and> isUpper b \<and> isZip z then Some ([a, b], z) else None)
      | _ \<Rightarrow> None)"

definition parseAddress :: "jsval \<Rightarrow> error + addressParts" where
  "parseAddress address =
     (case address of
        Str s \<Rightarrow>
          (let parts = map trim (split_char CHR '','' s); n = length parts
           in if 3 \<le> n then
                Inr \<lparr> street = join '', '' (take (n - 2) parts),
                      city_part = parts ! (n - 2),
                      state_part = (case stateZipMatch (parts ! (n - 1)) of
                                      Some (st, z) \<Rightarrow> st | None \<Rightarrow> []),
                      zipCode_part = (case stateZipMatch (parts ! (n - 1)) of
                                      Some (st, z) \<Rightarrow> z | None \<Rightarrow> []) \<rparr>
              else Inr \<lparr> street = s, city_part = [], state_part = [], zipCode_part = [] \<rparr>)
      | _ \<Rightarrow> Inl TypeError)"

section \<open>The form record\<close>

text \<open>
  \<^verbatim>\<open>Partial<Form1040Data>\<close>: every field may be absent (\<open>None\<close> is \<^verbatim>\<open>undefined\<close>). The
  fields are the ones the mapper reads or writes; text fields hold strings and the
  numbered lines hold numbers, as the type declares them.
\<close>

record form1040Data =
  firstName :: "string option"
  lastName :: "string option"
  ssn :: "string option"
  address :: "string option"
  city :: "string option"
  state :: "string option"
  zipCode :: "string option"
  filingStatus :: "string option"
  line1 :: "rat option"
  line2b :: "rat option"
  line3b :: "rat option"
  line4b :: "rat option"
  line5b :: "rat option"
  line6b :: "rat option"
  line7 :: "rat option"
  line8 :: "rat option"
  line9 :: "rat option"
  line11 :: "rat option"
  line12 :: "rat option"
  line13 :: "rat option"
  line15 :: "rat option"
  line16 :: "rat option"
  line17 :: "rat option"
  line23 :: "rat option"
  line24 :: "rat option"
  line25a :: "rat option"
  line25b :: "rat option"
  line25c :: "rat option"
  line25d :: "rat option"
  line32 :: "rat option"
  line33 :: "rat option"
  line34 :: "rat option"
  line37 :: "rat option"

definition emptyForm :: form1040Data where
  "emptyForm = \<lparr> firstName = None, lastName = None, ssn = None, address = None, city = None,
     state = None, zipCode = None, filingStatus = None, line1 = None, line2b = None,
     line3b = None, line4b = None, line5b = None, line6b = None, line7 = None, line8 = None,
     line9 = None, line11 = None, line12 = None, line13 = None, line15 = None, line16 = None,
     line17 = None, line23 = None, line24 = None, line25a = None, line25b = None,
     line25c = None, line25d = None, line32 = None, line33 = None, line34 = None,
     line37 = None \<rparr>"

text \<open>Truthiness of a text field, and \<^verbatim>\<open>line || 0\<close> on a numeric one.\<close>

definition hasText :: "string option \<Rightarrow> bool" where
  "hasText v = (case v of None \<Rightarrow> False | Some s \<Rightarrow> s \<noteq> [])"

definition or0 :: "rat option \<Rightarrow> rat" where
  "or0 v = (case v of None \<Rightarrow> 0 | Some n \<Rightarrow> n)"

section \<open>The tax calculator\<close>

definition calculateTotalIncome :: "form1040Data \<Rightarrow> rat" where
  "calculateTotalIncome f =
     or0 (line1 f) + or0 (line2b f) + or0 (line3b f) + or0 (line4b f)
     + or0 (line5b f) + or0 (line6b f) + or0 (line7 f) + or0 (line8 f)"

definition STANDARD_DEDUCTION_2023 :: "(string \<times> rat) list" where
  "STANDARD_DEDUCTION_2023 =
     [(''SINGLE'', 13850),
      (''MARRIED_FILING_JOINTLY'', 27700),
      (''MARRIED_FILING_SEPARATELY'', 13850),
      (''HEAD_OF_HOUSEHOLD'', 20800),
      (''QUALIFYING_SURVIVING_SPOUSE'', 27700)]"

text \<open>The table is read with a filing-status string; a key it does not have falls back
  to the entry for SINGLE. (The names every JavaScript object inherits, such as
  \<^verbatim>\<open>constructor\<close>, are not filing-status values and are not modelled.)\<close>

definition getStandardDeduction :: "string \<Rightarrow> rat" where
  "getStandardDeduction fs =
     (case map_of STANDARD_DEDUCTION_2023 fs of
        Some d \<Rightarrow> if d \<noteq> 0 then d else or0 (map_of STANDARD_DEDUCTION_2023 ''SINGLE'')
      | None \<Rightarrow> or0 (map_of STANDARD_DEDUCTION_2023 ''SINGLE''))"

text \<open>A bracket; \<open>bmax = None\<close> is \<^verbatim>\<open>Infinity\<close>.\<close>

record bracket =
  bmin :: rat
  bmax :: "rat option"
  rate :: rat

definition bracketsMFJ :: "bracket list" where
  "bracketsMFJ =
     [\<lparr> bmin = 0, bmax = Some 22000, rate = 10 / 100 \<rparr>,
      \<lparr> bmin = 22000, bmax = Some 89450, rate = 12 / 100 \<rparr>,
      \<lparr> bmin = 89450, bmax = Some 190750, rate = 22 / 100 \<rparr>,
      \<lparr> bmin = 190750, bmax = Some 364200, rate = 24 / 100 \<rparr>,
      \<lparr> bmin = 364200, bmax = Some 462500, rate = 32 / 100 \<rparr>,
      \<lparr> bmin = 462500, bmax = Some 693750, rate = 35 / 100 \<rparr>,
      \<lparr> bmin = 693750, bmax = None, rate = 37 / 100 \<rparr>]"

definition bracketsOther :: "bracket list" where
  "bracketsOther =
     [\<lparr> bmin = 0, bmax = Some 11000, rate = 10 / 100 \<rparr>,
      \<lparr> bmin = 11000, bmax = Some 44725, rate = 12 / 100 \<rparr>,
      \<lparr> bmin = 44725, bmax = Some 95375, rate = 22 / 100 \<rparr>,
      \<lparr> bmin = 95375, bmax = Some 182050, rate = 24 / 100 \<rparr>,
      \<lparr> bmin = 182050, bmax = Some 231250, rate = 32 / 100 \<rparr>,
      \<lparr> bmin = 231250, bmax = Some 578125, rate = 35 / 100 \<rparr>,
      \<lparr> bmin = 578125, bmax = None, rate = 37 / 100 \<rparr>]"

text \<open>The loop over the brackets, with its two variables \<^verbatim>\<open>tax\<close> and
  \<^verbatim>\<open>remainingIncome\<close>; it returns \<^verbatim>\<open>tax\<close>.\<close>

fun bracketLoop :: "bracket list \<Rightarrow> rat \<Rightarrow> rat \<Rightarrow> rat" where
  "bracketLoop [] tax remainingIncome = tax"
| "bracketLoop (b # bs) tax remainingIncome =
     (if remainingIncome \<le> 0 then tax
      else let taxableAtThisBracket =
                 (case bmax b of None \<Rightarrow> remainingIncome
                  | Some m \<Rightarrow> min remainingIncome (m - bmin b))
           in bracketLoop bs (tax + taxableAtThisBracket * rate b)
                (remainingIncome - taxableAtThisBracket))"

text \<open>\<^verbatim>\<open>Math.round\<close>: the nearest integer, a half going up.\<close>

definition mathRound :: "rat \<Rightarrow> rat" where
  "mathRound x = of_int \<lfloor>x + 1 / 2\<rfloor>"

definition calculateTaxLiability :: "rat \<Rightarrow> string option \<Rightarrow> rat" where
  "calculateTaxLiability taxableIncome fs =
     (let brackets = (if fs = Some ''MARRIED_FILING_JOINTLY'' then bracketsMFJ else bracketsOther)
      in mathRound (bracketLoop brackets 0 taxableIncome * 100) / 100)"

section \<open>mapW2ToForm1040\<close>

text \<open>The personal-information blocks (source lines 14 to 30). Each runs when the raw
  property is truthy and the guarding field of the record is not.\<close>

definition mapName :: "w2Data \<Rightarrow> form1040Data \<Rightarrow> error + form1040Data" where
  "mapName w f =
     (if truthy (field w ''employeeName'') \<and> \<not> hasText (firstName f) then
        (case field w ''employeeName'' of
           Str s \<Rightarrow>
             (let nameParts = split_ws (trim s)
              in Inr (f\<lparr> firstName := Some (case nameParts of [] \<Rightarrow> [] | p # _ \<Rightarrow> p),
                        lastName := Some (join '' '' (drop 1 nameParts)) \<rparr>))
         | _ \<Rightarrow> Inl TypeError)
      else Inr f)"

definition mapSSN :: "w2Data \<Rightarrow> form1040Data \<Rightarrow> error + form1040Data" where
  "mapSSN w f =
     (if truthy (field w ''employeeSSN'') \<and> \<not> hasText (ssn f) then
        (case formatSSN (field w ''employeeSSN'') of
           Inl e \<Rightarrow> Inl e
         | Inr s \<Rightarrow> Inr (f\<lparr> ssn := Some s \<rparr>))
      else Inr f)"

definition mapAddress :: "w2Data \<Rightarrow> form1040Data \<Rightarrow> error + form1040Data" where
  "mapAddress w f =
     (if truthy (field w ''employeeAddress'') \<and> \<not> hasText (address f) then
        (case parseAddress (field w ''employeeAddress'') of
           Inl e \<Rightarrow> Inl e
         | Inr a \<Rightarrow> Inr (f\<lparr> address := Some (street a), city := Some (city_part a),
                            state := Some (state_part a), zipCode := Some (zipCode_part a) \<rparr>))
      else Inr f)"

text \<open>The income mapping (source lines 34 to 43).\<close>

definition mapIncome :: "w2Data \<Rightarrow> form1040Data \<Rightarrow> form1040Data" where
  "mapIncome w f =
     (let wages = parseAmount (field w ''wages'');
          f1 = (if 0 < wages then f\<lparr> line1 := Some (or0 (line1 f) + wages) \<rparr> else f);
          federalTaxWithheld = parseAmount (field w ''federalTaxWithheld'')
      in if 0 < federalTaxWithheld
         then f1\<lparr> line25a := Some (or0 (line25a f1) + federalTaxWithheld) \<rparr>
         else f1)"

text \<open>The derived lines (source lines 46 to 82): one definition for each assignment,
  applied in the source's order by \<open>deriveLines\<close>.\<close>

definition setStandardDeduction :: "form1040Data \<Rightarrow> form1040Data" where
  "setStandardDeduction f =
     (case filingStatus f of
        None \<Rightarrow> f
      | Some fs \<Rightarrow>
          if or0 (line12 f) = 0 \<and> fs \<noteq> []
          then f\<lparr> line12 := Some (getStandardDeduction fs) \<rparr>
          else f)"

definition settle :: "form1040Data \<Rightarrow> form1040Data" where
  "settle f =
     (let totalTax = or0 (line24 f); totalPayments = or0 (line32 f)
      in if totalTax < totalPayments
         then f\<lparr> line33 := Some (totalPayments - totalTax),
                 line34 := Some (totalPayments - totalTax),
                 line37 := Some 0 \<rparr>
         else f\<lparr> line33 := Some 0, line34 := Some 0,
                 line37 := Some (totalTax - totalPayments) \<rparr>)"

definition totalIncomeLine :: "form1040Data \<Rightarrow> form1040Data" where
  "totalIncomeLine f = f\<lparr> line9 := Some (calculateTotalIncome f) \<rparr>"

definition agiLine :: "form1040Data \<Rightarrow> form1040Data" where
  "agiLine f = f\<lparr> line11 := line9 f \<rparr>"

definition taxableIncomeLine :: "form1040Data \<Rightarrow> form1040Data" where
  "taxableIncomeLine f =
     f\<lparr> line15 := Some (max 0 (or0 (line11 f) - or0 (line12 f) - or0 (line13 f))) \<rparr>"

definition taxLiabilityLine :: "form1040Data \<Rightarrow> form1040Data" where
  "taxLiabilityLine f =
     f\<lparr> line16 := Some (calculateTaxLiability (or0 (line15 f)) (filingStatus f)) \<rparr>"

definition totalTaxLine :: "form1040Data \<Rightarrow> form1040Data" where
  "totalTaxLine f = f\<lparr> line24 := Some (or0 (line16 f) + or0 (line17 f) + or0 (line23 f)) \<rparr>"

definition totalPaymentsLine :: "form1040Data \<Rightarrow> form1040Data" where
  "totalPaymentsLine f =
     f\<lparr> line32 := Some (or0 (line25a f) + or0 (line25b f) + or0 (line25c f) + or0 (line25d f)) \<rparr>"

definition deriveLines :: "form1040Data \<Rightarrow> form1040Data" where
  "deriveLines f =
     settle (totalPaymentsLine (totalTaxLine (taxLiabilityLine (taxableIncomeLine
       (setStandardDeduction (agiLine (totalIncomeLine f)))))))"

text \<open>\<^verbatim>\<open>{ ...existingForm1040 }\<close>: the fields of the existing record, or none when the
  argument is left out.\<close>

definition startRecord :: "form1040Data option \<Rightarrow> form1040Data" where
  "startRecord existingForm1040 = (case existingForm1040 of None \<Rightarrow> emptyForm | Some r \<Rightarrow> r)"

definition mapW2ToForm1040 :: "w2Data \<Rightarrow> form1040Data option \<Rightarrow> error + form1040Data" where
  "mapW2ToForm1040 w existingForm1040 =
     (let form = startRecord existingForm1040
      in case mapName w form of
           Inl e \<Rightarrow> Inl e
         | Inr f1 \<Rightarrow>
             (case mapSSN w f1 of
                Inl e \<Rightarrow> Inl e
              | Inr f2 \<Rightarrow>
                  (case mapAddress w f2 of
                     Inl e \<Rightarrow> Inl e
                   | Inr f3 \<Rightarrow> Inr (deriveLines (mapIncome w f3)))))"

subsection \<open>The mapper on a store of objects\<close>

text \<open>
  The same function with the objects in a store: an object is an entry of the list and a
  reference is its index. The spread allocates a new object, and every assignment of the
  source writes that object. A call that throws leaves the store as it was at the throw.
\<close>

type_synonym store = "form1040Data list"

definition mapW2ToForm1040_store ::
    "store \<Rightarrow> w2Data \<Rightarrow> nat option \<Rightarrow> (error + nat) \<times> store" where
  "mapW2ToForm1040_store h w existingForm1040 =
     (let p = length h;
          h0 = h @ [startRecord (map_option (\<lambda>a. h ! a) existingForm1040)]
      in case mapName w (h0 ! p) of
           Inl e \<Rightarrow> (Inl e, h0)
         | Inr f1 \<Rightarrow>
             (let h1 = h0[p := f1]
              in case mapSSN w (h1 ! p) of
                   Inl e \<Rightarrow> (Inl e, h1)
                 | Inr f2 \<Rightarrow>
                     (let h2 = h1[p := f2]
                      in case mapAddress w (h2 ! p) of
                           Inl e \<Rightarrow> (Inl e, h2)
                         | Inr f3 \<Rightarrow>
                             (let h3 = h2[p := f3];
                                  h4 = h3[p := mapIncome w (h3 ! p)];
                                  h5 = h4[p := deriveLines (h4 ! p)]
                              in (Inr p, h5)))))"

section \<open>createMappingSummary\<close>

record mappingEntry =
  w2Field :: string
  w2Value :: jsval
  form1040Line :: string
  form1040Value :: jsval
  description :: string

definition createMappingSummary :: "w2Data \<Rightarrow> error + mappingEntry list" where
  "createMappingSummary w =
     (let nameEntry =
            (if truthy (field w ''employeeName'')
             then [\<lparr> w2Field = ''Employee Name'', w2Value = field w ''employeeName'',
                      form1040Line = ''Header'', form1040Value = field w ''employeeName'',
                      description = ''Taxpayer name from W2'' \<rparr>]
             else []);
          amounts =
            (if truthy (field w ''wages'')
             then [\<lparr> w2Field = ''Box 1 - Wages'', w2Value = field w ''wages'',
                      form1040Line = ''Line 1'',
                      form1040Value = Num (parseAmount (field w ''wages'')),
                      description = ''Wages, tips, other compensation'' \<rparr>]
             else [])
            @ (if truthy (field w ''federalTaxWithheld'')
               then [\<lparr> w2Field = ''Box 2 - Federal Tax Withheld'',
                        w2Value = field w ''federalTaxWithheld'', form1040Line = ''Line 25a'',
                        form1040Value = Num (parseAmount (field w ''federalTaxWithheld'')),
                        description = ''Federal income tax withheld'' \<rparr>]
               else [])
            @ (if truthy (field w ''socialSecurityWages'')
               then [\<lparr> w2Field = ''Box 3 - Social Security Wages'',
                        w2Value = field w ''socialSecurityWages'',
                        form1040Line = ''Informational'',
                        form1040Value = Num (parseAmount (field w ''socialSecurityWages'')),
                        description = ''Social security wages (informational)'' \<rparr>]
               else [])
            @ (if truthy (field w ''medicareWages'')
               then [\<lparr> w2Field = ''Box 5 - Medicare Wages'',
                        w2Value = field w ''medicareWages'', form1040Line = ''Informational'',
                        form1040Value = Num (parseAmount (field w ''medicareWages'')),
                        description = ''Medicare wages and tips (informational)'' \<rparr>]
               else [])
      in if truthy (field w ''employeeSSN'') then
           (case formatSSN (field w ''employeeSSN'') of
              Inl e \<Rightarrow> Inl e
            | Inr formatted \<Rightarrow>
                Inr (nameEntry
                     @ [\<lparr> w2Field = ''Employee SSN'', w2Value = field w ''employeeSSN'',
                           form1040Line = ''Header'', form1040Value = Str formatted,
                           description = ''Taxpayer SSN from W2'' \<rparr>]
                     @ amounts))
         else Inr (nameEntry @ amounts))"

text \<open>The checklist of the summary: raw property and the label of its entry, in the
  order of the source's six blocks.\<close>

definition summaryChecklist :: "(string \<times> string) list" where
  "summaryChecklist =
     [(''employeeName'', ''Employee Name''),
      (''employeeSSN'', ''Employee SSN''),
      (''wages'', ''Box 1 - Wages''),
      (''federalTaxWithheld'', ''Box 2 - Federal Tax Withheld''),
      (''socialSecurityWages'', ''Box 3 - Social Security Wages''),
      (''medicareWages'', ''Box 5 - Medicare Wages'')]"

section \<open>validateW2DataForMapping\<close>

record validation =
  isValid :: bool
  errors :: "string list"
  warnings :: "string list"

definition validateW2DataForMapping :: "w2Data \<Rightarrow> validation" where
  "validateW2DataForMapping w =
     (let errs =
            (if \<not> truthy (field w ''wages'') \<and> \<not> truthy (field w ''line1'')
             then [''W2 wages (Box 1) is required but not found''] else [])
            @ (if \<not> truthy (field w ''employeeSSN'') \<and> \<not> truthy (field w ''ssn'')
               then [''Employee SSN is required but not found''] else [])
            @ (if \<not> truthy (field w ''employeeName'') \<and> \<not> truthy (field w ''firstName'')
                  \<and> \<not> truthy (field w ''lastName'')
               then [''Employee name is required but not found''] else []);
          warns =
            (if \<not> truthy (field w ''federalTaxWithheld'')
             then [''Federal tax withheld (Box 2) not found - no withholdings will be applied'']
             else [])
            @ (if \<not> truthy (field w ''employerName'')
               then [''Employer name not found - may be needed for verification''] else [])
            @ (if \<not> truthy (field w ''employerEIN'')
               then [''Employer EIN not found - may be needed for verification''] else [])
      in \<lparr> isValid = (length errs = 0), errors = errs, warnings = warns \<rparr>)"

section \<open>Definitions used to state and prove the properties\<close>

text \<open>The name rule in the words of the specification: the tokens of a string are its
  maximal runs of characters that are not whitespace.\<close>

function nameTokens :: "string \<Rightarrow> string list" where
  "nameTokens [] = []"
| "nameTokens (c # cs) =
     (if isWhiteSpace c then nameTokens cs
      else (c # takeWhile (\<lambda>x. \<not> isWhiteSpace x) cs)
           # nameTokens (dropWhile (\<lambda>x. \<not> isWhiteSpace x) cs))"
  by pat_completeness auto
termination
  by (relation "measure length") (auto simp: le_imp_less_Suc length_dropWhile_le)

text \<open>The value the standard-deduction step leaves in line 12, and the derived amounts,
  as functions of the record the derivation starts from.\<close>

definition deductionOf :: "string option \<Rightarrow> rat option \<Rightarrow> rat option" where
  "deductionOf fs l12 =
     (if or0 l12 = 0 \<and> hasText fs then map_option getStandardDeduction fs else l12)"

definition derivedTaxable :: "form1040Data \<Rightarrow> rat" where
  "derivedTaxable f =
     max 0 (calculateTotalIncome f - or0 (deductionOf (filingStatus f) (line12 f)) - or0 (line13 f))"

definition derivedTotalTax :: "form1040Data \<Rightarrow> rat" where
  "derivedTotalTax f =
     calculateTaxLiability (derivedTaxable f) (filingStatus f) + or0 (line17 f) + or0 (line23 f)"

definition derivedPayments :: "form1040Data \<Rightarrow> rat" where
  "derivedPayments f = or0 (line25a f) + or0 (line25b f) + or0 (line25c f) + or0 (line25d f)"

text \<open>The worked example: one wage statement merged into a record that has only the
  filing status.\<close>

definition exampleW2 :: w2Data where
  "exampleW2 = [''wages'' \<mapsto> Num 50000, ''federalTaxWithheld'' \<mapsto> Num 5000]"

definition exampleExisting :: form1040Data where
  "exampleExisting = emptyForm\<lparr> filingStatus := Some ''SINGLE'' \<rparr>"

definition exampleResult :: form1040Data where
  "exampleResult = emptyForm\<lparr> filingStatus := Some ''SINGLE'', line1 := Some 50000,
     line9 := Some 50000, line11 := Some 50000, line12 := Some 13850, line15 := Some 36150,
     line16 := Some 4118, line24 := Some 4118, line25a := Some 5000, line32 := Some 5000,
     line33 := Some 882, line34 := Some 882, line37 := Some 0 \<rparr>"

text \<open>The worked example merged a second time into its own result.\<close>

definition doubledResult :: form1040Data where
  "doubledResult = emptyForm\<lparr> filingStatus := Some ''SINGLE'', line1 := Some 100000,
     line9 := Some 100000, line11 := Some 100000, line12 := Some 13850, line15 := Some 86150,
     line16 := Some (28521 / 2), line24 := Some (28521 / 2), line25a := Some 10000,
     line32 := Some 10000, line33 := Some 0, line34 := Some 0, line37 := Some (8521 / 2) \<rparr>"

definition owedW2 :: w2Data where
  "owedW2 = [''wages'' \<mapsto> Num 50000]"

definition owedResult :: form1040Data where
  "owedResult = emptyForm\<lparr> filingStatus := Some ''SINGLE'', line1 := Some 50000,
     line9 := Some 50000, line11 := Some 50000, line12 := Some 13850, line15 := Some 36150,
     line16 := Some 4118, line24 := Some 4118, line32 := Some 0,
     line33 := Some 0, line34 := Some 0, line37 := Some 4118 \<rparr>"

definition noStatusResult :: form1040Data where
  "noStatusResult = emptyForm\<lparr> line1 := Some 50000, line9 := Some 50000,
     line11 := Some 50000, line15 := Some 50000, line16 := Some (12615 / 2),
     line24 := Some (12615 / 2), line25a := Some 5000, line32 := Some 5000,
     line33 := Some 0, line34 := Some 0, line37 := Some (2615 / 2) \<rparr>"

text \<open>Two wage statements that carry identity data; the first has its amounts as text.\<close>

definition janeW2 :: w2Data where
  "janeW2 = [''employeeName'' \<mapsto> Str ''Jane  Q Doe'', ''employeeSSN'' \<mapsto> Str ''123456789'',
     ''employeeAddress'' \<mapsto> Str ''123 Main St, Springfield, IL 62704'',
     ''wages'' \<mapsto> Str ''$1,000.00'', ''federalTaxWithheld'' \<mapsto> Str ''100'']"

definition janeResult :: form1040Data where
  "janeResult = emptyForm\<lparr> firstName := Some ''Jane'', lastName := Some ''Q Doe'',
     ssn := Some ''123-45-6789'', address := Some ''123 Main St'', city := Some ''Springfield'',
     state := Some ''IL'', zipCode := Some ''62704'', filingStatus := Some ''SINGLE'',
     line1 := Some 1000, line9 := Some 1000, line11 := Some 1000, line12 := Some 13850,
     line15 := Some 0, line16 := Some 0, line24 := Some 0, line25a := Some 100,
     line32 := Some 100, line33 := Some 100, line34 := Some 100, line37 := Some 0 \<rparr>"

definition bobW2 :: w2Data where
  "bobW2 = [''employeeName'' \<mapsto> Str ''Bob Roe'', ''employeeSSN'' \<mapsto> Str ''987-65-4321'',
     ''employeeAddress'' \<mapsto> Str ''9 Elm St, Salem, OR 97301'', ''wages'' \<mapsto> Num 2000]"

definition bobResult :: form1040Data where
  "bobResult = emptyForm\<lparr> firstName := Some ''Bob'', lastName := Some ''Roe'',
     ssn := Some ''987-65-4321'', address := Some ''9 Elm St'', city := Some ''Salem'',
     state := Some ''OR'', zipCode := Some ''97301'', filingStatus := Some ''SINGLE'',
     line1 := Some 2000, line9 := Some 2000, line11 := Some 2000, line12 := Some 13850,
     line15 := Some 0, line16 := Some 0, line24 := Some 0,
     line32 := Some 0, line33 := Some 0, line34 := Some 0, line37 := Some 0 \<rparr>"

definition janeBobResult :: form1040Data where
  "janeBobResult = janeResult\<lparr> line1 := Some 3000, line9 := Some 3000, line11 := Some 3000 \<rparr>"

definition bobJaneResult :: form1040Data where
  "bobJaneResult = bobResult\<lparr> line1 := Some 3000, line9 := Some 3000, line11 := Some 3000,
     line25a := Some 100, line32 := Some 100, line33 := Some 100, line34 := Some 100 \<rparr>"

text \<open>A document whose name is only whitespace.\<close>

definition blankNameW2 :: w2Data where
  "blankNameW2 = [''employeeName'' \<mapsto> Str ''  '']"

definition blankNameResult :: form1040Data where
  "blankNameResult = emptyForm\<lparr> firstName := Some [], lastName := Some [],
     filingStatus := Some ''SINGLE'',
     line9 := Some 0, line11 := Some 0, line12 := Some 13850, line15 := Some 0,
     line16 := Some 0, line24 := Some 0, line32 := Some 0,
     line33 := Some 0, line34 := Some 0, line37 := Some 0 \<rparr>"

text \<open>A document whose name is the empty string, merged with no existing record.\<close>

definition emptyNameW2 :: w2Data where
  "emptyNameW2 = [''employeeName'' \<mapsto> Str []]"

definition emptyNameResult :: form1040Data where
  "emptyNameResult = emptyForm\<lparr> line9 := Some 0, line11 := Some 0, line15 := Some 0,
     line16 := Some 0, line24 := Some 0, line32 := Some 0,
     line33 := Some 0, line34 := Some 0, line37 := Some 0 \<rparr>"

text \<open>A raw record with the three required fields and nothing else, and a store that
  holds one record.\<close>

definition requiredOnlyW2 :: w2Data where
  "requiredOnlyW2 = [''wages'' \<mapsto> Num 50000, ''employeeSSN'' \<mapsto> Str ''123-45-6789'',
     ''employeeName'' \<mapsto> Str ''Jane Doe'']"

definition exampleStore :: store where
  "exampleStore = [exampleExisting]"

section \<open>Evaluating the examples\<close>

lemma example_merge: "mapW2ToForm1040 exampleW2 (Some exampleExisting) = Inr exampleResult"
  by code_simp

lemma example_again: "mapW2ToForm1040 exampleW2 (Some exampleResult) = Inr doubledResult"
  by code_simp

lemma owed_merge: "mapW2ToForm1040 owedW2 (Some exampleExisting) = Inr owedResult"
  by code_simp

lemma noStatus_merge: "mapW2ToForm1040 exampleW2 (Some emptyForm) = Inr noStatusResult"
  by code_simp

lemma jane_merge: "mapW2ToForm1040 janeW2 (Some exampleExisting) = Inr janeResult"
  by code_simp

lemma jane_then_bob: "mapW2ToForm1040 bobW2 (Some janeResult) = Inr janeBobResult"
  by code_simp

lemma bob_merge: "mapW2ToForm1040 bobW2 (Some exampleExisting) = Inr bobResult"
  by code_simp

lemma bob_then_jane: "mapW2ToForm1040 janeW2 (Some bobResult) = Inr bobJaneResult"
  by code_simp

lemma blankName_merge: "mapW2ToForm1040 blankNameW2 (Some exampleExisting) = Inr blankNameResult"
  by code_simp

lemma emptyName_merge: "mapW2ToForm1040 emptyNameW2 None = Inr emptyNameResult"
  by code_simp

section \<open>Basic facts\<close>

lemma or0_simps [simp]: "or0 None = 0" "or0 (Some x) = x"
  by (simp_all add: or0_def)

lemma hasText_simps [simp]: "hasText None = False" "hasText (Some s) = (s \<noteq> [])"
  by (simp_all add: hasText_def)

lemma getStandardDeduction_nonzero: "getStandardDeduction fs \<noteq> 0"
  by (simp add: getStandardDeduction_def STANDARD_DEDUCTION_2023_def)

lemma deductionOf_idem: "deductionOf fs (deductionOf fs l) = deductionOf fs l"
  by (cases fs) (simp_all add: deductionOf_def getStandardDeduction_nonzero)

subsection \<open>The three personal-information blocks\<close>

lemma mapName_shape:
  assumes "mapName w f = Inr f'"
  shows "\<exists>a b. f' = f\<lparr> firstName := a, lastName := b \<rparr>"
proof -
  from assms have "f' = f\<lparr> firstName := firstName f', lastName := lastName f' \<rparr>"
    by (auto simp: mapName_def Let_def split: if_splits jsval.splits)
  then show ?thesis by blast
qed

lemma mapSSN_shape:
  assumes "mapSSN w f = Inr f'"
  shows "\<exists>c. f' = f\<lparr> ssn := c \<rparr>"
proof -
  from assms have "f' = f\<lparr> ssn := ssn f' \<rparr>"
    by (auto simp: mapSSN_def split: if_splits sum.splits)
  then show ?thesis by blast
qed

lemma mapAddress_shape:
  assumes "mapAddress w f = Inr f'"
  shows "\<exists>d e g h. f' = f\<lparr> address := d, city := e, state := g, zipCode := h \<rparr>"
proof -
  from assms have "f' = f\<lparr> address := address f', city := city f', state := state f',
      zipCode := zipCode f' \<rparr>"
    by (auto simp: mapAddress_def split: if_splits sum.splits)
  then show ?thesis by blast
qed

lemma mapName_present: "hasText (firstName f) \<Longrightarrow> mapName w f = Inr f"
  by (simp add: mapName_def)

lemma mapSSN_present: "hasText (ssn f) \<Longrightarrow> mapSSN w f = Inr f"
  by (simp add: mapSSN_def)

lemma mapAddress_present: "hasText (address f) \<Longrightarrow> mapAddress w f = Inr f"
  by (simp add: mapAddress_def)

subsection \<open>The income mapping and the derived lines in closed form\<close>

lemma mapIncome_explicit:
  "mapIncome w f = f\<lparr>
     line1 := (if 0 < parseAmount (field w ''wages'')
               then Some (or0 (line1 f) + parseAmount (field w ''wages'')) else line1 f),
     line25a := (if 0 < parseAmount (field w ''federalTaxWithheld'')
               then Some (or0 (line25a f) + parseAmount (field w ''federalTaxWithheld''))
               else line25a f) \<rparr>"
  by (simp add: mapIncome_def Let_def)

lemma settle_explicit:
  "settle f = f\<lparr>
     line33 := Some (if or0 (line24 f) < or0 (line32 f) then or0 (line32 f) - or0 (line24 f) else 0),
     line34 := Some (if or0 (line24 f) < or0 (line32 f) then or0 (line32 f) - or0 (line24 f) else 0),
     line37 := Some (if or0 (line24 f) < or0 (line32 f) then 0 else or0 (line24 f) - or0 (line32 f)) \<rparr>"
  by (simp add: settle_def Let_def)

lemma setStandardDeduction_value:
  "setStandardDeduction f = f\<lparr> line12 := deductionOf (filingStatus f) (line12 f) \<rparr>"
  by (cases "filingStatus f") (simp_all add: setStandardDeduction_def deductionOf_def)

lemma deriveLines_explicit:
  "deriveLines f = f\<lparr>
     line9 := Some (calculateTotalIncome f),
     line11 := Some (calculateTotalIncome f),
     line12 := deductionOf (filingStatus f) (line12 f),
     line15 := Some (derivedTaxable f),
     line16 := Some (calculateTaxLiability (derivedTaxable f) (filingStatus f)),
     line24 := Some (derivedTotalTax f),
     line32 := Some (derivedPayments f),
     line33 := Some (if derivedTotalTax f < derivedPayments f
                     then derivedPayments f - derivedTotalTax f else 0),
     line34 := Some (if derivedTotalTax f < derivedPayments f
                     then derivedPayments f - derivedTotalTax f else 0),
     line37 := Some (if derivedTotalTax f < derivedPayments f
                     then 0 else derivedTotalTax f - derivedPayments f) \<rparr>"
  by (simp add: deriveLines_def totalIncomeLine_def agiLine_def taxableIncomeLine_def
      taxLiabilityLine_def totalTaxLine_def totalPaymentsLine_def settle_explicit
      setStandardDeduction_value derivedTaxable_def derivedTotalTax_def derivedPayments_def)

lemma deriveLines_idem: "deriveLines (deriveLines f) = deriveLines f"
proof -
  let ?g = "deriveLines f"
  have ti: "calculateTotalIncome ?g = calculateTotalIncome f"
    by (simp add: deriveLines_explicit calculateTotalIncome_def)
  have fs: "filingStatus ?g = filingStatus f"
    and l12: "line12 ?g = deductionOf (filingStatus f) (line12 f)"
    and l13: "line13 ?g = line13 f"
    by (simp_all add: deriveLines_explicit)
  have tx: "derivedTaxable ?g = derivedTaxable f"
    by (simp add: derivedTaxable_def ti fs l12 l13 deductionOf_idem)
  have tt: "derivedTotalTax ?g = derivedTotalTax f"
    by (simp add: derivedTotalTax_def tx fs) (simp add: deriveLines_explicit)
  have tp: "derivedPayments ?g = derivedPayments f"
    by (simp add: derivedPayments_def deriveLines_explicit)
  show ?thesis
    by (subst deriveLines_explicit [of ?g])
      (simp add: ti fs l12 tx tt tp deductionOf_idem, simp add: deriveLines_explicit)
qed

subsection \<open>What a returning call computes\<close>

lemma merge_steps:
  assumes "mapW2ToForm1040 w ex = Inr M"
  obtains f1 f2 f3 where
    "mapName w (startRecord ex) = Inr f1" "mapSSN w f1 = Inr f2" "mapAddress w f2 = Inr f3"
    "M = deriveLines (mapIncome w f3)"
  using assms
  by (auto simp: mapW2ToForm1040_def Let_def split: sum.splits)

lemma merge_shape:
  assumes "mapW2ToForm1040 w ex = Inr M"
  obtains a b c d e g h where
    "M = deriveLines (mapIncome w ((startRecord ex)\<lparr> firstName := a, lastName := b, ssn := c,
           address := d, city := e, state := g, zipCode := h \<rparr>))"
proof -
  from assms obtain f1 f2 f3 where
    s: "mapName w (startRecord ex) = Inr f1" "mapSSN w f1 = Inr f2" "mapAddress w f2 = Inr f3"
    and M: "M = deriveLines (mapIncome w f3)"
    by (rule merge_steps)
  from mapName_shape [OF s(1)] obtain a b where
    f1: "f1 = (startRecord ex)\<lparr> firstName := a, lastName := b \<rparr>" by blast
  from mapSSN_shape [OF s(2)] obtain c where f2: "f2 = f1\<lparr> ssn := c \<rparr>" by blast
  from mapAddress_shape [OF s(3)] obtain d e g h where
    f3: "f3 = f2\<lparr> address := d, city := e, state := g, zipCode := h \<rparr>" by blast
  show ?thesis
    by (rule that) (simp add: M f3 f2 f1)
qed

lemma merge_identity_steps:
  assumes "mapW2ToForm1040 w ex = Inr M"
  obtains f1 f2 f3 where
    "mapName w (startRecord ex) = Inr f1" "mapSSN w f1 = Inr f2" "mapAddress w f2 = Inr f3"
    "ssn f1 = ssn (startRecord ex)" "address f1 = address (startRecord ex)"
    "city f1 = city (startRecord ex)" "state f1 = state (startRecord ex)"
    "zipCode f1 = zipCode (startRecord ex)"
    "address f2 = address f1" "city f2 = city f1" "state f2 = state f1" "zipCode f2 = zipCode f1"
    "firstName M = firstName f1" "lastName M = lastName f1" "ssn M = ssn f2"
    "address M = address f3" "city M = city f3" "state M = state f3" "zipCode M = zipCode f3"
proof -
  from assms obtain f1 f2 f3 where
    s: "mapName w (startRecord ex) = Inr f1" "mapSSN w f1 = Inr f2" "mapAddress w f2 = Inr f3"
    and M: "M = deriveLines (mapIncome w f3)"
    by (rule merge_steps)
  from mapName_shape [OF s(1)] obtain a b where
    f1: "f1 = (startRecord ex)\<lparr> firstName := a, lastName := b \<rparr>" by blast
  from mapSSN_shape [OF s(2)] obtain c where f2: "f2 = f1\<lparr> ssn := c \<rparr>" by blast
  from mapAddress_shape [OF s(3)] obtain d e g h where
    f3: "f3 = f2\<lparr> address := d, city := e, state := g, zipCode := h \<rparr>" by blast
  show ?thesis
  proof (rule that [OF s])
    show "ssn f1 = ssn (startRecord ex)" "address f1 = address (startRecord ex)"
      "city f1 = city (startRecord ex)" "state f1 = state (startRecord ex)"
      "zipCode f1 = zipCode (startRecord ex)"
      by (simp_all add: f1)
    show "address f2 = address f1" "city f2 = city f1" "state f2 = state f1"
      "zipCode f2 = zipCode f1"
      by (simp_all add: f2)
    show "firstName M = firstName f1" "lastName M = lastName f1" "ssn M = ssn f2"
      "address M = address f3" "city M = city f3" "state M = state f3" "zipCode M = zipCode f3"
      by (simp_all add: M f3 f2 deriveLines_explicit mapIncome_explicit)
  qed
qed

lemma merge_inputs:
  assumes "mapW2ToForm1040 w ex = Inr M"
  shows "line1 M = (if 0 < parseAmount (field w ''wages'')
                    then Some (or0 (line1 (startRecord ex)) + parseAmount (field w ''wages''))
                    else line1 (startRecord ex))"
    and "line25a M = (if 0 < parseAmount (field w ''federalTaxWithheld'')
                    then Some (or0 (line25a (startRecord ex))
                               + parseAmount (field w ''federalTaxWithheld''))
                    else line25a (startRecord ex))"
    and "line2b M = line2b (startRecord ex)" "line3b M = line3b (startRecord ex)"
    and "line4b M = line4b (startRecord ex)" "line5b M = line5b (startRecord ex)"
    and "line6b M = line6b (startRecord ex)" "line7 M = line7 (startRecord ex)"
    and "line8 M = line8 (startRecord ex)" "line13 M = line13 (startRecord ex)"
    and "line17 M = line17 (startRecord ex)" "line23 M = line23 (startRecord ex)"
    and "line25b M = line25b (startRecord ex)" "line25c M = line25c (startRecord ex)"
    and "line25d M = line25d (startRecord ex)" "filingStatus M = filingStatus (startRecord ex)"
    and "line12 M = deductionOf (filingStatus (startRecord ex)) (line12 (startRecord ex))"
proof -
  from assms obtain a b c d e g h where
    "M = deriveLines (mapIncome w ((startRecord ex)\<lparr> firstName := a, lastName := b, ssn := c,
           address := d, city := e, state := g, zipCode := h \<rparr>))"
    by (rule merge_shape)
  then show "line1 M = (if 0 < parseAmount (field w ''wages'')
                    then Some (or0 (line1 (startRecord ex)) + parseAmount (field w ''wages''))
                    else line1 (startRecord ex))"
    and "line25a M = (if 0 < parseAmount (field w ''federalTaxWithheld'')
                    then Some (or0 (line25a (startRecord ex))
                               + parseAmount (field w ''federalTaxWithheld''))
                    else line25a (startRecord ex))"
    and "line2b M = line2b (startRecord ex)" "line3b M = line3b (startRecord ex)"
    and "line4b M = line4b (startRecord ex)" "line5b M = line5b (startRecord ex)"
    and "line6b M = line6b (startRecord ex)" "line7 M = line7 (startRecord ex)"
    and "line8 M = line8 (startRecord ex)" "line13 M = line13 (startRecord ex)"
    and "line17 M = line17 (startRecord ex)" "line23 M = line23 (startRecord ex)"
    and "line25b M = line25b (startRecord ex)" "line25c M = line25c (startRecord ex)"
    and "line25d M = line25d (startRecord ex)" "filingStatus M = filingStatus (startRecord ex)"
    and "line12 M = deductionOf (filingStatus (startRecord ex)) (line12 (startRecord ex))"
    by (simp_all add: deriveLines_explicit mapIncome_explicit)
qed

lemma merge_derived:
  assumes "mapW2ToForm1040 w ex = Inr M"
  shows "line9 M = Some (or0 (line1 M) + or0 (line2b M) + or0 (line3b M) + or0 (line4b M)
                    + or0 (line5b M) + or0 (line6b M) + or0 (line7 M) + or0 (line8 M))"
    and "line11 M = line9 M"
    and "line15 M = Some (max 0 (or0 (line11 M) - or0 (line12 M) - or0 (line13 M)))"
    and "line16 M = Some (calculateTaxLiability (or0 (line15 M)) (filingStatus M))"
    and "line24 M = Some (or0 (line16 M) + or0 (line17 M) + or0 (line23 M))"
    and "line32 M = Some (or0 (line25a M) + or0 (line25b M) + or0 (line25c M) + or0 (line25d M))"
    and "line33 M = Some (if or0 (line24 M) < or0 (line32 M)
                          then or0 (line32 M) - or0 (line24 M) else 0)"
    and "line34 M = line33 M"
    and "line37 M = Some (if or0 (line24 M) < or0 (line32 M)
                          then 0 else or0 (line24 M) - or0 (line32 M))"
proof -
  from assms obtain f1 f2 f3 where M: "M = deriveLines (mapIncome w f3)"
    by (rule merge_steps)
  define g where "g = mapIncome w f3"
  have M': "M = deriveLines g" by (simp add: M g_def)
  show "line9 M = Some (or0 (line1 M) + or0 (line2b M) + or0 (line3b M) + or0 (line4b M)
                    + or0 (line5b M) + or0 (line6b M) + or0 (line7 M) + or0 (line8 M))"
    by (simp add: M' deriveLines_explicit calculateTotalIncome_def)
  show "line11 M = line9 M"
    by (simp add: M' deriveLines_explicit)
  show "line15 M = Some (max 0 (or0 (line11 M) - or0 (line12 M) - or0 (line13 M)))"
    by (simp add: M' deriveLines_explicit derivedTaxable_def)
  show "line16 M = Some (calculateTaxLiability (or0 (line15 M)) (filingStatus M))"
    by (simp add: M' deriveLines_explicit)
  show "line24 M = Some (or0 (line16 M) + or0 (line17 M) + or0 (line23 M))"
    by (simp add: M' deriveLines_explicit derivedTotalTax_def)
  show "line32 M = Some (or0 (line25a M) + or0 (line25b M) + or0 (line25c M) + or0 (line25d M))"
    by (simp add: M' deriveLines_explicit derivedPayments_def)
  show "line33 M = Some (if or0 (line24 M) < or0 (line32 M)
                          then or0 (line32 M) - or0 (line24 M) else 0)"
    by (simp add: M' deriveLines_explicit)
  show "line34 M = line33 M"
    by (simp add: M' deriveLines_explicit)
  show "line37 M = Some (if or0 (line24 M) < or0 (line32 M)
                          then 0 else or0 (line24 M) - or0 (line32 M))"
    by (simp add: M' deriveLines_explicit)
qed


lemma mapName_again:
  assumes "mapName w f = Inr f1" "firstName g = firstName f1" "lastName g = lastName f1"
  shows "mapName w g = Inr g"
proof (cases "truthy (field w ''employeeName'') \<and> \<not> hasText (firstName g)")
  case False
  then show ?thesis by (auto simp: mapName_def)
next
  case guard: True
  show ?thesis
  proof (cases "hasText (firstName f)")
    case True
    with assms(1) have "f1 = f" by (simp add: mapName_present)
    with True guard assms(2) show ?thesis by simp
  next
    case False
    with guard assms(1) obtain s where s: "field w ''employeeName'' = Str s"
      and f1: "f1 = f\<lparr> firstName := Some (case split_ws (trim s) of [] \<Rightarrow> [] | p # _ \<Rightarrow> p),
                        lastName := Some (join '' '' (drop 1 (split_ws (trim s)))) \<rparr>"
      by (auto simp: mapName_def Let_def split: jsval.splits)
    have "g\<lparr> firstName := firstName g, lastName := lastName g \<rparr> = g" by simp
    then have "g\<lparr> firstName := firstName f1, lastName := lastName f1 \<rparr> = g"
      by (simp only: assms(2,3))
    with guard s show ?thesis
      by (simp add: mapName_def Let_def f1)
  qed
qed

lemma mapSSN_again:
  assumes "mapSSN w f = Inr f2" "ssn g = ssn f2"
  shows "mapSSN w g = Inr g"
proof (cases "truthy (field w ''employeeSSN'') \<and> \<not> hasText (ssn g)")
  case False
  then show ?thesis by (auto simp: mapSSN_def)
next
  case guard: True
  show ?thesis
  proof (cases "hasText (ssn f)")
    case True
    with assms(1) have "f2 = f" by (simp add: mapSSN_present)
    with True guard assms(2) show ?thesis by simp
  next
    case False
    with guard assms(1) obtain s where s: "formatSSN (field w ''employeeSSN'') = Inr s"
      and f2: "f2 = f\<lparr> ssn := Some s \<rparr>"
      by (auto simp: mapSSN_def split: sum.splits)
    have "g\<lparr> ssn := ssn g \<rparr> = g" by simp
    then have "g\<lparr> ssn := ssn f2 \<rparr> = g"
      by (simp only: assms(2))
    with guard s show ?thesis
      by (simp add: mapSSN_def f2)
  qed
qed

lemma mapAddress_again:
  assumes "mapAddress w f = Inr f3" "address g = address f3" "city g = city f3"
    "state g = state f3" "zipCode g = zipCode f3"
  shows "mapAddress w g = Inr g"
proof (cases "truthy (field w ''employeeAddress'') \<and> \<not> hasText (address g)")
  case False
  then show ?thesis by (auto simp: mapAddress_def)
next
  case guard: True
  show ?thesis
  proof (cases "hasText (address f)")
    case True
    with assms(1) have "f3 = f" by (simp add: mapAddress_present)
    with True guard assms(2) show ?thesis by simp
  next
    case False
    with guard assms(1) obtain a where a: "parseAddress (field w ''employeeAddress'') = Inr a"
      and f3: "f3 = f\<lparr> address := Some (street a), city := Some (city_part a),
                            state := Some (state_part a), zipCode := Some (zipCode_part a) \<rparr>"
      by (auto simp: mapAddress_def split: sum.splits)
    have "g\<lparr> address := address g, city := city g, state := state g, zipCode := zipCode g \<rparr> = g"
      by simp
    then have "g\<lparr> address := address f3, city := city f3, state := state f3,
        zipCode := zipCode f3 \<rparr> = g"
      by (simp only: assms(2-5))
    with guard a show ?thesis
      by (simp add: mapAddress_def f3)
  qed
qed

section \<open>The worked example\<close>

text \<open>
  C1. Merging the raw record with wages 50000 and federal withholding 5000 into the
  record that has only the filing status SINGLE returns a record with line 9 = 50000,
  line 11 = 50000, line 12 = 13850, line 15 = 36150, line 16 = 4118, line 24 = 4118,
  line 32 = 5000, line 33 = 882 and line 37 = 0.
\<close>

theorem worked_example_lines:
  "(case mapW2ToForm1040 [''wages'' \<mapsto> Num 50000, ''federalTaxWithheld'' \<mapsto> Num 5000]
           (Some (emptyForm\<lparr> filingStatus := Some ''SINGLE'' \<rparr>)) of
      Inl e \<Rightarrow> False
    | Inr M \<Rightarrow>
        line9 M = Some 50000 \<and> line11 M = Some 50000 \<and> line12 M = Some 13850
        \<and> line15 M = Some 36150 \<and> line16 M = Some 4118 \<and> line24 M = Some 4118
        \<and> line32 M = Some 5000 \<and> line33 M = Some 882 \<and> line37 M = Some 0)"
  using example_merge
  by (simp add: exampleW2_def exampleExisting_def exampleResult_def emptyForm_def)

section \<open>Accumulation\<close>



lemma remerge_changes_wages:
  assumes "mapW2ToForm1040 X R = Inr M" and "0 < parseAmount (field X ''wages'')"
  shows "mapW2ToForm1040 X (Some M) \<noteq> Inr M"
proof
  assume "mapW2ToForm1040 X (Some M) = Inr M"
  from merge_inputs(1) [OF this] assms(2)
  have "line1 M = Some (or0 (line1 M) + parseAmount (field X ''wages''))"
    by (simp add: startRecord_def)
  then have "or0 (line1 M) = or0 (line1 M) + parseAmount (field X ''wages'')"
    by (metis or0_simps(2))
  with assms(2) show False by simp
qed

lemma remerge_changes_withholding:
  assumes "mapW2ToForm1040 X R = Inr M" and "0 < parseAmount (field X ''federalTaxWithheld'')"
  shows "mapW2ToForm1040 X (Some M) \<noteq> Inr M"
proof
  assume "mapW2ToForm1040 X (Some M) = Inr M"
  from merge_inputs(2) [OF this] assms(2)
  have "line25a M = Some (or0 (line25a M) + parseAmount (field X ''federalTaxWithheld''))"
    by (simp add: startRecord_def)
  then have "or0 (line25a M) = or0 (line25a M) + parseAmount (field X ''federalTaxWithheld'')"
    by (metis or0_simps(2))
  with assms(2) show False by simp
qed

lemma remerge_unchanged:
  assumes "mapW2ToForm1040 X R = Inr M"
    and "\<not> 0 < parseAmount (field X ''wages'')"
    and "\<not> 0 < parseAmount (field X ''federalTaxWithheld'')"
  shows "mapW2ToForm1040 X (Some M) = Inr M"
proof -
  from assms(1) obtain f1 f2 f3 where
    s: "mapName X (startRecord R) = Inr f1" "mapSSN X f1 = Inr f2" "mapAddress X f2 = Inr f3"
    and p: "firstName M = firstName f1" "lastName M = lastName f1" "ssn M = ssn f2"
    "address M = address f3" "city M = city f3" "state M = state f3" "zipCode M = zipCode f3"
    by (rule merge_identity_steps) blast
  from assms(1) obtain g where M: "M = deriveLines g"
    by (rule merge_steps) blast
  have n: "mapName X M = Inr M"
    by (rule mapName_again [OF s(1)]) (simp_all add: p)
  have i: "mapSSN X M = Inr M"
    by (rule mapSSN_again [OF s(2)]) (simp_all add: p)
  have a: "mapAddress X M = Inr M"
    by (rule mapAddress_again [OF s(3)]) (simp_all add: p)
  have inc: "mapIncome X M = M"
    using assms(2,3) by (simp add: mapIncome_explicit)
  have d: "deriveLines M = M"
    by (simp add: M deriveLines_idem)
  show ?thesis
    by (simp add: mapW2ToForm1040_def startRecord_def n i a inc d)
qed




section \<open>Identity fields\<close>



section \<open>Derived lines\<close>

text \<open>
  C6. In every record a call returns: if line 32 (total payments) exceeds line 24 (total
  tax), line 33 is payments minus tax, line 34 equals line 33 and line 37 is zero;
  otherwise line 37 is tax minus payments and lines 33 and 34 are zero. Lines 33 and 37
  are never both positive.
\<close>

theorem settlement_refund_or_owed:
  assumes "mapW2ToForm1040 w ex = Inr M"
  shows "(or0 (line24 M) < or0 (line32 M) \<longrightarrow>
            line33 M = Some (or0 (line32 M) - or0 (line24 M)) \<and> line34 M = line33 M
            \<and> line37 M = Some 0)
       \<and> (\<not> or0 (line24 M) < or0 (line32 M) \<longrightarrow>
            line37 M = Some (or0 (line24 M) - or0 (line32 M)) \<and> line33 M = Some 0
            \<and> line34 M = Some 0)
       \<and> \<not> (0 < or0 (line33 M) \<and> 0 < or0 (line37 M))
       \<and> line24 M \<noteq> None \<and> line32 M \<noteq> None"
  using merge_derived(5-9) [OF assms] by simp

theorem settlement_refund_or_owed_witness:
  "mapW2ToForm1040 exampleW2 (Some exampleExisting) = Inr exampleResult
   \<and> or0 (line24 exampleResult) < or0 (line32 exampleResult)
   \<and> line33 exampleResult = Some 882 \<and> line34 exampleResult = Some 882
   \<and> line37 exampleResult = Some 0
   \<and> mapW2ToForm1040 owedW2 (Some exampleExisting) = Inr owedResult
   \<and> \<not> or0 (line24 owedResult) < or0 (line32 owedResult)
   \<and> line33 owedResult = Some 0 \<and> line34 owedResult = Some 0
   \<and> line37 owedResult = Some 4118"
  using settlement_refund_or_owed [OF example_merge] settlement_refund_or_owed [OF owed_merge]
    example_merge owed_merge
  by (simp add: exampleResult_def owedResult_def emptyForm_def)

text \<open>
  C10. A call never writes the filing status: the returned record has the filing status
  of the record the call starts from. When that record has no filing status and its
  line 12 is absent or zero, the returned record has line 12 as it was (no standard
  deduction, read as zero) and line 15 is line 11 minus line 13, not below zero.
\<close>

theorem filing_status_not_written:
  assumes "mapW2ToForm1040 w ex = Inr M"
  shows "filingStatus M = filingStatus (startRecord ex)
       \<and> (\<not> hasText (filingStatus (startRecord ex)) \<and> or0 (line12 (startRecord ex)) = 0 \<longrightarrow>
            line12 M = line12 (startRecord ex) \<and> or0 (line12 M) = 0
            \<and> line15 M = Some (max 0 (or0 (line11 M) - or0 (line13 M))))"
  using merge_inputs(16,17) [OF assms] merge_derived(3) [OF assms]
  by (simp add: deductionOf_def)

theorem filing_status_not_written_witness:
  "mapW2ToForm1040 exampleW2 (Some emptyForm) = Inr noStatusResult
   \<and> startRecord (Some emptyForm) = emptyForm
   \<and> \<not> hasText (filingStatus emptyForm) \<and> or0 (line12 emptyForm) = 0
   \<and> filingStatus noStatusResult = None \<and> line12 noStatusResult = None
   \<and> line11 noStatusResult = Some 50000 \<and> line15 noStatusResult = Some 50000"
  using filing_status_not_written [OF noStatus_merge] noStatus_merge
  by (simp add: noStatusResult_def emptyForm_def startRecord_def)

subsection \<open>Splitting the name\<close>

lemma nameTokens_dropWhile: "nameTokens (dropWhile isWhiteSpace s) = nameTokens s"
  by (induction s) simp_all

lemma nameTokens_all_ws: "\<forall>c\<in>set u. isWhiteSpace c \<Longrightarrow> nameTokens u = []"
  by (induction u) simp_all

lemma nameTokens_append_ws:
  "\<forall>c\<in>set u. isWhiteSpace c \<Longrightarrow> nameTokens (s @ u) = nameTokens s"
proof (induction s rule: nameTokens.induct)
  case 1
  then show ?case by (simp add: nameTokens_all_ws)
next
  case (2 c cs)
  show ?case
  proof (cases "isWhiteSpace c")
    case True
    with 2 show ?thesis by simp
  next
    case False
    show ?thesis
    proof (cases "\<forall>x\<in>set cs. \<not> isWhiteSpace x")
      case True
      have a: "takeWhile (\<lambda>x. \<not> isWhiteSpace x) (cs @ u) = cs @ takeWhile (\<lambda>x. \<not> isWhiteSpace x) u"
        using True by (simp add: takeWhile_append2)
      have b: "dropWhile (\<lambda>x. \<not> isWhiteSpace x) (cs @ u) = dropWhile (\<lambda>x. \<not> isWhiteSpace x) u"
        using True by (simp add: dropWhile_append2)
      have c: "takeWhile (\<lambda>x. \<not> isWhiteSpace x) u = []"
        using "2.prems" by (cases u) simp_all
      have d: "nameTokens (dropWhile (\<lambda>x. \<not> isWhiteSpace x) u) = []"
        using "2.prems" by (intro nameTokens_all_ws) (auto dest: set_dropWhileD)
      have e: "takeWhile (\<lambda>x. \<not> isWhiteSpace x) cs = cs"
        using True by (simp add: takeWhile_eq_all_conv)
      have f: "dropWhile (\<lambda>x. \<not> isWhiteSpace x) cs = []"
        using True by (simp add: dropWhile_eq_Nil_conv)
      have "nameTokens ((c # cs) @ u) = [c # cs]"
        using False by (simp only: append_Cons nameTokens.simps if_False a b c d append_Nil2)
      moreover have "nameTokens (c # cs) = [c # cs]"
        using False by (simp only: nameTokens.simps if_False e f)
      ultimately show ?thesis by simp
    next
      case some: False
      then obtain x where "x \<in> set cs" "isWhiteSpace x" by blast
      then have "takeWhile (\<lambda>x. \<not> isWhiteSpace x) (cs @ u) = takeWhile (\<lambda>x. \<not> isWhiteSpace x) cs"
        and "dropWhile (\<lambda>x. \<not> isWhiteSpace x) (cs @ u) = dropWhile (\<lambda>x. \<not> isWhiteSpace x) cs @ u"
        by (simp_all add: takeWhile_append1 dropWhile_append1)
      with False "2.IH"(2) [OF False "2.prems"] show ?thesis by simp
    qed
  qed
qed

lemma trim_decomp:
  "dropWhile isWhiteSpace s
     = trim s @ rev (takeWhile isWhiteSpace (rev (dropWhile isWhiteSpace s)))"
  unfolding trim_def by (metis rev_append rev_rev_ident takeWhile_dropWhile_id)

lemma nameTokens_trim: "nameTokens (trim s) = nameTokens s"
proof -
  let ?t = "dropWhile isWhiteSpace s"
  have t: "?t = trim s @ rev (takeWhile isWhiteSpace (rev ?t))"
    by (rule trim_decomp)
  have "\<forall>c\<in>set (rev (takeWhile isWhiteSpace (rev ?t))). isWhiteSpace c"
    by (auto dest: set_takeWhileD)
  then have "nameTokens (trim s @ rev (takeWhile isWhiteSpace (rev ?t))) = nameTokens (trim s)"
    by (rule nameTokens_append_ws)
  with t have "nameTokens ?t = nameTokens (trim s)" by simp
  then show ?thesis by (simp add: nameTokens_dropWhile)
qed

lemma trim_ends:
  assumes "trim s \<noteq> []"
  shows "\<not> isWhiteSpace (hd (trim s))" "\<not> isWhiteSpace (last (trim s))"
proof -
  let ?t = "dropWhile isWhiteSpace s"
  let ?r = "dropWhile isWhiteSpace (rev ?t)"
  from assms have r: "?r \<noteq> []" by (simp add: trim_def)
  then have "\<not> isWhiteSpace (hd ?r)" by (metis hd_dropWhile)
  then show "\<not> isWhiteSpace (last (trim s))"
    using r by (simp add: trim_def last_rev)
  have t: "?t = trim s @ rev (takeWhile isWhiteSpace (rev ?t))"
    by (rule trim_decomp)
  with assms have "hd ?t = hd (trim s)" by (metis hd_append2)
  moreover from t assms have "?t \<noteq> []" by (metis append_is_Nil_conv)
  then have "\<not> isWhiteSpace (hd ?t)" by (metis hd_dropWhile)
  ultimately show "\<not> isWhiteSpace (hd (trim s))" by simp
qed

lemma split_ws_last:
  assumes "dropWhile (\<lambda>c. \<not> isWhiteSpace c) s = []"
  shows "split_ws s = [takeWhile (\<lambda>c. \<not> isWhiteSpace c) s]"
  apply (subst split_ws.simps)
  apply (simp only: assms)
  apply (simp only: refl if_True)
  done

lemma split_ws_more:
  assumes "dropWhile (\<lambda>c. \<not> isWhiteSpace c) s \<noteq> []"
  shows "split_ws s = takeWhile (\<lambda>c. \<not> isWhiteSpace c) s
           # split_ws (dropWhile isWhiteSpace (dropWhile (\<lambda>c. \<not> isWhiteSpace c) s))"
  apply (subst split_ws.simps)
  apply (simp only: assms if_False)
  done

lemma split_ws_tokens:
  "t \<noteq> [] \<Longrightarrow> \<not> isWhiteSpace (hd t) \<Longrightarrow> \<not> isWhiteSpace (last t) \<Longrightarrow> split_ws t = nameTokens t"
proof (induction t rule: split_ws.induct)
  case (1 s)
  let ?tok = "takeWhile (\<lambda>c. \<not> isWhiteSpace c) s"
  let ?rest = "dropWhile (\<lambda>c. \<not> isWhiteSpace c) s"
  from "1.prems" obtain c cs where s: "s = c # cs" and c: "\<not> isWhiteSpace c"
    by (cases s) auto
  have tok: "nameTokens s = ?tok # nameTokens ?rest"
    using c by (simp add: s)
  show ?case
  proof (cases "?rest = []")
    case True
    have "split_ws s = [?tok]"
      using True by (rule split_ws_last)
    moreover have "nameTokens s = [?tok]"
      by (simp only: tok True nameTokens.simps)
    ultimately show ?thesis by (simp only:)
  next
    case False
    let ?next = "dropWhile isWhiteSpace ?rest"
    have "s = ?tok @ ?rest" by simp
    with False have last_rest: "last ?rest = last s" by (metis last_appendR)
    have ne: "?next \<noteq> []"
    proof
      assume "?next = []"
      then have "\<forall>x\<in>set ?rest. isWhiteSpace x" by (simp only: dropWhile_eq_Nil_conv)
      with False have "isWhiteSpace (last ?rest)" by (meson last_in_set)
      with last_rest "1.prems"(3) show False by metis
    qed
    then have hd_next: "\<not> isWhiteSpace (hd ?next)" by (metis hd_dropWhile)
    have "?rest = takeWhile isWhiteSpace ?rest @ ?next" by simp
    with ne have "last ?next = last ?rest" by (metis last_appendR)
    with last_rest "1.prems"(3) have last_next: "\<not> isWhiteSpace (last ?next)" by metis
    from "1.IH" [OF False ne hd_next last_next] have ih: "split_ws ?next = nameTokens ?next" .
    have "split_ws s = ?tok # split_ws ?next"
      using False by (rule split_ws_more)
    also have "\<dots> = ?tok # nameTokens ?rest"
      by (simp only: ih nameTokens_dropWhile)
    finally show ?thesis by (simp only: tok)
  qed
qed

lemma split_ws_Nil: "split_ws [] = [[]]"
  by (subst split_ws.simps) simp

lemma nameParts_tokens:
  "(case split_ws (trim s) of [] \<Rightarrow> [] | p # _ \<Rightarrow> p) = (case nameTokens s of [] \<Rightarrow> [] | t # _ \<Rightarrow> t)"
  "join sep (drop (Suc 0) (split_ws (trim s))) = join sep (drop (Suc 0) (nameTokens s))"
proof -
  have "split_ws (trim s) = nameTokens s \<or> (split_ws (trim s) = [[]] \<and> nameTokens s = [])"
  proof (cases "trim s = []")
    case True
    moreover have "nameTokens (trim s) = nameTokens s" by (rule nameTokens_trim)
    ultimately show ?thesis by (simp add: split_ws_Nil)
  next
    case False
    then have "split_ws (trim s) = nameTokens (trim s)"
      by (intro split_ws_tokens trim_ends)
    then show ?thesis by (simp add: nameTokens_trim)
  qed
  then show "(case split_ws (trim s) of [] \<Rightarrow> [] | p # _ \<Rightarrow> p) = (case nameTokens s of [] \<Rightarrow> [] | t # _ \<Rightarrow> t)"
    and "join sep (drop (Suc 0) (split_ws (trim s))) = join sep (drop (Suc 0) (nameTokens s))"
    by auto
qed

lemma mapSSN_error:
  assumes "mapSSN w f = Inl e"
  shows "\<exists>n. field w ''employeeSSN'' = Num n"
  using assms
  by (cases "field w ''employeeSSN''")
    (auto simp: mapSSN_def formatSSN_def Let_def split: if_splits sum.splits)

lemma mapAddress_error:
  assumes "mapAddress w f = Inl e"
  shows "\<exists>n. field w ''employeeAddress'' = Num n"
  using assms
  by (cases "field w ''employeeAddress''")
    (auto simp: mapAddress_def parseAddress_def Let_def split: if_splits sum.splits)

lemma mapName_written:
  assumes "field w ''employeeName'' = Str s" and "s \<noteq> []" and "\<not> hasText (firstName f)"
  shows "mapName w f = Inr (f\<lparr> firstName := Some (case split_ws (trim s) of [] \<Rightarrow> [] | p # _ \<Rightarrow> p),
                               lastName := Some (join '' '' (drop 1 (split_ws (trim s)))) \<rparr>)"
  using assms by (simp add: mapName_def Let_def)


lemma mapName_not_written:
  assumes "field w ''employeeName'' = Str []"
  shows "mapName w f = Inr f"
  using assms by (simp add: mapName_def)

text \<open>
  C5, as the source has it. In a call where the raw name is a string and the record the
  call starts from has no given name: if the raw name is not the empty string, the returned record
  has the first whitespace-separated token of the raw name as given name (the empty string
  if there is no token) and the remaining tokens, joined by single spaces, as family name,
  so a raw name of only whitespace gives two empty strings; if the raw name is the empty
  string, the name is not written and both parts stay as they were (absent, if the record
  had none).
  If such a call throws, the raw identifier or the raw address is a number: the name does
  not make it throw.
\<close>

theorem name_split_rule:
  assumes "field w ''employeeName'' = Str s" and "\<not> hasText (firstName (startRecord ex))"
  shows "(case mapW2ToForm1040 w ex of
            Inr M \<Rightarrow>
              (s \<noteq> [] \<longrightarrow>
                 firstName M = Some (case nameTokens s of [] \<Rightarrow> [] | t # _ \<Rightarrow> t)
                 \<and> lastName M = Some (join '' '' (drop 1 (nameTokens s)))
                 \<and> (nameTokens s = [] \<longrightarrow> firstName M = Some [] \<and> lastName M = Some []))
              \<and> (s = [] \<longrightarrow>
                 firstName M = firstName (startRecord ex)
                 \<and> lastName M = lastName (startRecord ex))
          | Inl e \<Rightarrow>
              (\<exists>n. field w ''employeeSSN'' = Num n) \<or> (\<exists>n. field w ''employeeAddress'' = Num n))"
proof (cases "mapW2ToForm1040 w ex")
  case (Inr M)
  then obtain f1 where f1: "mapName w (startRecord ex) = Inr f1"
    and M: "firstName M = firstName f1" "lastName M = lastName f1"
    by (rule merge_identity_steps) blast
  have written: "firstName M = Some (case nameTokens s of [] \<Rightarrow> [] | t # _ \<Rightarrow> t)
      \<and> lastName M = Some (join '' '' (drop 1 (nameTokens s)))" if "s \<noteq> []"
  proof -
    have "mapName w (startRecord ex)
        = Inr ((startRecord ex)\<lparr> firstName := Some (case nameTokens s of [] \<Rightarrow> [] | t # _ \<Rightarrow> t),
                    lastName := Some (join '' '' (drop 1 (nameTokens s))) \<rparr>)"
      using mapName_written [OF assms(1) that assms(2)]
      by (simp add: nameParts_tokens)
    with f1 have "firstName f1 = Some (case nameTokens s of [] \<Rightarrow> [] | t # _ \<Rightarrow> t)"
      and "lastName f1 = Some (join '' '' (drop 1 (nameTokens s)))"
      by auto
    with M show ?thesis by simp
  qed
  have skipped: "firstName M = firstName (startRecord ex) \<and> lastName M = lastName (startRecord ex)"
    if "s = []"
  proof -
    from that assms(1) have "mapName w (startRecord ex) = Inr (startRecord ex)"
      by (simp add: mapName_not_written)
    with f1 have "f1 = startRecord ex" by simp
    with M show ?thesis by simp
  qed
  from written skipped Inr show ?thesis by auto
next
  case (Inl e)
  obtain f where n: "mapName w (startRecord ex) = Inr f"
  proof (cases "s = []")
    case True
    with assms(1) have "mapName w (startRecord ex) = Inr (startRecord ex)"
      by (simp add: mapName_not_written)
    then show ?thesis by (rule that)
  next
    case False
    from mapName_written [OF assms(1) False assms(2)] show ?thesis
      by (rule that)
  qed
  from Inl have "(\<exists>g e'. mapSSN w g = Inl e') \<or> (\<exists>g e'. mapAddress w g = Inl e')"
    unfolding mapW2ToForm1040_def Let_def n
    by (auto split: sum.splits)
  then have "(\<exists>n. field w ''employeeSSN'' = Num n) \<or> (\<exists>n. field w ''employeeAddress'' = Num n)"
    using mapSSN_error mapAddress_error by blast
  with Inl show ?thesis by simp
qed

theorem name_split_rule_witness:
  "field janeW2 ''employeeName'' = Str ''Jane  Q Doe''
   \<and> \<not> hasText (firstName (startRecord (Some exampleExisting)))
   \<and> mapW2ToForm1040 janeW2 (Some exampleExisting) = Inr janeResult
   \<and> firstName janeResult = Some ''Jane'' \<and> lastName janeResult = Some ''Q Doe''
   \<and> nameTokens ''Jane  Q Doe'' = [''Jane'', ''Q'', ''Doe'']
   \<and> field blankNameW2 ''employeeName'' = Str ''  ''
   \<and> mapW2ToForm1040 blankNameW2 (Some exampleExisting) = Inr blankNameResult
   \<and> nameTokens ''  '' = []
   \<and> firstName blankNameResult = Some [] \<and> lastName blankNameResult = Some []
   \<and> field emptyNameW2 ''employeeName'' = Str []
   \<and> \<not> hasText (firstName (startRecord None))
   \<and> mapW2ToForm1040 emptyNameW2 None = Inr emptyNameResult
   \<and> firstName emptyNameResult = firstName (startRecord None)
   \<and> lastName emptyNameResult = lastName (startRecord None)"
proof -
  have j: "field janeW2 ''employeeName'' = Str ''Jane  Q Doe''"
    and b: "field blankNameW2 ''employeeName'' = Str ''  ''"
    and n: "field emptyNameW2 ''employeeName'' = Str []"
    by (simp_all add: janeW2_def blankNameW2_def emptyNameW2_def field_def)
  have e: "\<not> hasText (firstName (startRecord (Some exampleExisting)))"
    and e': "\<not> hasText (firstName (startRecord None))"
    by (simp_all add: startRecord_def exampleExisting_def emptyForm_def)
  have tj: "nameTokens ''Jane  Q Doe'' = [''Jane'', ''Q'', ''Doe'']"
    and tb: "nameTokens ''  '' = []"
    by (simp_all add: isWhiteSpace_def)
  from name_split_rule [OF j e] name_split_rule [OF b e] name_split_rule [OF n e']
    jane_merge blankName_merge emptyName_merge j b n e e' tj tb
  show ?thesis by simp
qed

text \<open>
  C5, as the specification states it, fails for the empty string: the guard of the name block
  tests the raw name for truthiness, the empty string is not truthy, and the name parts
  are left absent instead of being set to empty strings.
\<close>

theorem empty_name_not_written:
  "mapW2ToForm1040 [''employeeName'' \<mapsto> Str []] None = Inr emptyNameResult
   \<and> firstName emptyNameResult = None \<and> lastName emptyNameResult = None
   \<and> firstName emptyNameResult \<noteq> Some [] \<and> lastName emptyNameResult \<noteq> Some []"
  using emptyName_merge
  by (simp add: emptyNameW2_def emptyNameResult_def emptyForm_def)

section \<open>When a call returns\<close>

lemma merge_returns:
  assumes "\<forall>n. field w ''employeeName'' \<noteq> Num n" and "\<forall>n. field w ''employeeSSN'' \<noteq> Num n"
    and "\<forall>n. field w ''employeeAddress'' \<noteq> Num n"
  shows "\<exists>M. mapW2ToForm1040 w ex = Inr M"
proof -
  have "\<exists>f1. mapName w f = Inr f1" for f
    using assms(1) by (cases "field w ''employeeName''") (simp_all add: mapName_def Let_def)
  moreover have "\<exists>f2. mapSSN w f = Inr f2" for f
    using assms(2)
    by (cases "field w ''employeeSSN''") (simp_all add: mapSSN_def formatSSN_def Let_def)
  moreover have "\<exists>f3. mapAddress w f = Inr f3" for f
    using assms(3)
    by (cases "field w ''employeeAddress''") (simp_all add: mapAddress_def parseAddress_def Let_def)
  ultimately obtain f1 f2 f3 where "mapName w (startRecord ex) = Inr f1"
    "mapSSN w f1 = Inr f2" "mapAddress w f2 = Inr f3"
    by metis
  then show ?thesis
    by (simp add: mapW2ToForm1040_def)
qed

section \<open>The caller's record\<close>

lemma store_frame:
  "i < length h \<Longrightarrow> snd (mapW2ToForm1040_store h w ex) ! i = h ! i"
  by (simp add: mapW2ToForm1040_store_def Let_def nth_append split: sum.splits)

lemma store_result:
  "(case mapW2ToForm1040 w (map_option (\<lambda>a. h ! a) ex) of
      Inl e \<Rightarrow> fst (mapW2ToForm1040_store h w ex) = Inl e
    | Inr M \<Rightarrow> fst (mapW2ToForm1040_store h w ex) = Inr (length h)
               \<and> snd (mapW2ToForm1040_store h w ex) ! length h = M)"
  by (simp add: mapW2ToForm1040_store_def mapW2ToForm1040_def Let_def split: sum.splits)

text \<open>
  C7. With the records in a store and the existing record passed by reference: after the
  call, whether it returns or throws, every object that was in the store, the caller's
  record among them, holds the values it held before. A returning call returns a
  reference to a new object, which holds the result of the mapping.
\<close>

theorem caller_record_not_mutated:
  assumes "a < length h"
  shows "snd (mapW2ToForm1040_store h w (Some a)) ! a = h ! a
       \<and> (\<forall>i < length h. snd (mapW2ToForm1040_store h w (Some a)) ! i = h ! i)
       \<and> (\<forall>p. fst (mapW2ToForm1040_store h w (Some a)) = Inr p \<longrightarrow>
              p \<noteq> a
              \<and> mapW2ToForm1040 w (Some (h ! a))
                  = Inr (snd (mapW2ToForm1040_store h w (Some a)) ! p))"
proof -
  have "\<forall>i < length h. snd (mapW2ToForm1040_store h w (Some a)) ! i = h ! i"
    by (simp add: store_frame)
  moreover have "p \<noteq> a \<and> mapW2ToForm1040 w (Some (h ! a))
                  = Inr (snd (mapW2ToForm1040_store h w (Some a)) ! p)"
    if "fst (mapW2ToForm1040_store h w (Some a)) = Inr p" for p
    using that assms store_result [where w = w and h = h and ex = "Some a"]
    by (cases "mapW2ToForm1040 w (Some (h ! a))") auto
  ultimately show ?thesis using assms by blast
qed

theorem caller_record_not_mutated_witness:
  "0 < length exampleStore
   \<and> snd (mapW2ToForm1040_store exampleStore exampleW2 (Some 0)) ! 0 = exampleExisting
   \<and> fst (mapW2ToForm1040_store exampleStore exampleW2 (Some 0)) = Inr 1
   \<and> snd (mapW2ToForm1040_store exampleStore exampleW2 (Some 0)) ! 1 = exampleResult"
proof -
  have l: "0 < length exampleStore" by (simp add: exampleStore_def)
  have h: "exampleStore ! 0 = exampleExisting" by (simp add: exampleStore_def)
  from store_result [where w = exampleW2 and h = exampleStore and ex = "Some 0"] example_merge
  have r: "fst (mapW2ToForm1040_store exampleStore exampleW2 (Some 0)) = Inr 1"
    by (simp add: h exampleStore_def)
  from caller_record_not_mutated [OF l, of exampleW2] l h r example_merge
  show ?thesis by simp
qed

section \<open>The validator\<close>

text \<open>
  C8. On the empty raw record the validator gives isValid = false and exactly the three
  errors for wages, identifier and name. On a record where wages, identifier and name are
  present and federal withholding, employer name and employer identifier are not, it gives
  isValid = true, no error and three warnings. For every record, isValid holds exactly when
  the error list is empty, which is exactly when each of the three required items is
  present under one of its spellings; the fields that only give warnings play no part.
  A field is present when its value is truthy, the test the source makes.
\<close>

theorem validation_presence:
  "validateW2DataForMapping Map.empty =
     \<lparr> isValid = False,
       errors = [''W2 wages (Box 1) is required but not found'',
                 ''Employee SSN is required but not found'',
                 ''Employee name is required but not found''],
       warnings = [''Federal tax withheld (Box 2) not found - no withholdings will be applied'',
                   ''Employer name not found - may be needed for verification'',
                   ''Employer EIN not found - may be needed for verification''] \<rparr>
   \<and> (truthy (field w ''wages'') \<and> truthy (field w ''employeeSSN'')
        \<and> truthy (field w ''employeeName'') \<and> \<not> truthy (field w ''federalTaxWithheld'')
        \<and> \<not> truthy (field w ''employerName'') \<and> \<not> truthy (field w ''employerEIN'')
      \<longrightarrow> isValid (validateW2DataForMapping w) \<and> errors (validateW2DataForMapping w) = []
          \<and> length (warnings (validateW2DataForMapping w)) = 3)
   \<and> (isValid (validateW2DataForMapping w) \<longleftrightarrow> errors (validateW2DataForMapping w) = [])
   \<and> (isValid (validateW2DataForMapping w) \<longleftrightarrow>
        (truthy (field w ''wages'') \<or> truthy (field w ''line1''))
        \<and> (truthy (field w ''employeeSSN'') \<or> truthy (field w ''ssn''))
        \<and> (truthy (field w ''employeeName'') \<or> truthy (field w ''firstName'')
             \<or> truthy (field w ''lastName'')))"
proof -
  have "validateW2DataForMapping Map.empty =
     \<lparr> isValid = False,
       errors = [''W2 wages (Box 1) is required but not found'',
                 ''Employee SSN is required but not found'',
                 ''Employee name is required but not found''],
       warnings = [''Federal tax withheld (Box 2) not found - no withholdings will be applied'',
                   ''Employer name not found - may be needed for verification'',
                   ''Employer EIN not found - may be needed for verification''] \<rparr>"
    by (simp add: validateW2DataForMapping_def field_def)
  moreover have "isValid (validateW2DataForMapping w) \<longleftrightarrow> errors (validateW2DataForMapping w) = []"
    by (simp add: validateW2DataForMapping_def Let_def)
  moreover have "errors (validateW2DataForMapping w) = [] \<longleftrightarrow>
        (truthy (field w ''wages'') \<or> truthy (field w ''line1''))
        \<and> (truthy (field w ''employeeSSN'') \<or> truthy (field w ''ssn''))
        \<and> (truthy (field w ''employeeName'') \<or> truthy (field w ''firstName'')
             \<or> truthy (field w ''lastName''))"
    by (simp add: validateW2DataForMapping_def Let_def)
  moreover have "length (warnings (validateW2DataForMapping w)) = 3"
    if "\<not> truthy (field w ''federalTaxWithheld'')" "\<not> truthy (field w ''employerName'')"
      "\<not> truthy (field w ''employerEIN'')"
    using that by (simp add: validateW2DataForMapping_def Let_def)
  ultimately show ?thesis by blast
qed

theorem validation_presence_witness:
  "truthy (field requiredOnlyW2 ''wages'') \<and> truthy (field requiredOnlyW2 ''employeeSSN'')
   \<and> truthy (field requiredOnlyW2 ''employeeName'')
   \<and> \<not> truthy (field requiredOnlyW2 ''federalTaxWithheld'')
   \<and> \<not> truthy (field requiredOnlyW2 ''employerName'')
   \<and> \<not> truthy (field requiredOnlyW2 ''employerEIN'')
   \<and> isValid (validateW2DataForMapping requiredOnlyW2)
   \<and> errors (validateW2DataForMapping requiredOnlyW2) = []
   \<and> length (warnings (validateW2DataForMapping requiredOnlyW2)) = 3"
proof -
  have "truthy (field requiredOnlyW2 ''wages'')" "truthy (field requiredOnlyW2 ''employeeSSN'')"
    "truthy (field requiredOnlyW2 ''employeeName'')"
    "\<not> truthy (field requiredOnlyW2 ''federalTaxWithheld'')"
    "\<not> truthy (field requiredOnlyW2 ''employerName'')"
    "\<not> truthy (field requiredOnlyW2 ''employerEIN'')"
    by (simp_all add: requiredOnlyW2_def field_def)
  with validation_presence [of requiredOnlyW2] show ?thesis by blast
qed

section \<open>The mapping summary\<close>

lemma summary_returns:
  assumes "\<forall>n. field w ''employeeSSN'' \<noteq> Num n"
  shows "\<exists>ms. createMappingSummary w = Inr ms"
  using assms
  by (cases "field w ''employeeSSN''")
    (simp_all add: createMappingSummary_def formatSSN_def Let_def)

lemma summary_entries_in_checklist_order:
  assumes "createMappingSummary w = Inr ms"
  shows "map w2Field ms = map snd (filter (\<lambda>(k, l). truthy (field w k)) summaryChecklist)"
  using assms
  by (auto simp: createMappingSummary_def summaryChecklist_def Let_def
      split: if_splits sum.splits)

text \<open>
  C9. The summary does raise: when the raw identifier is a number other than zero,
  \<^verbatim>\<open>formatSSN\<close> calls \<^verbatim>\<open>replace\<close> on it and the call throws a TypeError. (When it returns,
  the entries are those of the checklist whose fields are truthy, in checklist order:
  \<open>summary_entries_in_checklist_order\<close>.)
\<close>

theorem summary_throws_on_numeric_identifier:
  "createMappingSummary [''employeeSSN'' \<mapsto> Num 123456789] = Inl TypeError"
  by (simp add: createMappingSummary_def formatSSN_def field_def)

end
